theory Spec2Isabelle
  imports Complex_Main "HOL-Library.AList" "HOL-Library.Multiset" "HOL-Library.Monad_Syntax"
    "HOL-Library.Word" "HOL-Library.Log_Nat"
begin

section \<open>The Vibe entity (types/Vibe.ts)\<close>

text \<open>
  JavaScript numbers are modelled exactly: timestamps (milliseconds) and counts are
  integers, scores, rates, intensities and random factors are rationals. Rounding of
  doubles in sums and products of such values, NaN and infinities are outside the model;
  the one double product whose rounding decides an integer result, \<open>limit * 0.7\<close> in the
  personal stream, is modelled bit-exactly further down.
\<close>

datatype AnimationType = Pulse | Flow | Sparkle | Wave | Static

datatype HapticPattern = ShortBuzz | LongPulse | GentleThrob | RandomPattern

datatype FontStyle = Serif | SansSerif | Monospace

record Visual =
  palette :: "string list"
  animationType :: AnimationType
  intensity :: rat

record Audio =
  loopUrl :: string
  volume :: rat
  pitchShift :: "rat option"

record Haptic =
  pattern :: HapticPattern
  h_intensity :: rat

record TextEl =
  content :: string
  fontStyle :: FontStyle
  color :: string

record Internal =
  parentVibeIds :: "string list"
  resonanceScore :: rat
  generation :: int
  lastResonatedAt :: int

text \<open>
  Field \<open>vid\<close> is the source's \<open>id\<close>, \<open>vtext\<close> its \<open>text\<close>, \<open>internal\<close> its \<open>_internal\<close>,
  and \<open>h_intensity\<close> the \<open>intensity\<close> of the haptic channel.
\<close>

record Vibe =
  vid :: string
  createdAt :: int
  expiresAt :: int
  visual :: Visual
  audio :: Audio
  haptic :: "Haptic option"
  vtext :: "TextEl option"
  internal :: Internal

section \<open>The store (data/VibeStore.ts)\<close>

text \<open>
  \<open>Map<string, Vibe>\<close> iterates in insertion order and \<open>set\<close> on a present key keeps the
  key's position: an association list under \<open>AList.update\<close>. The map holds object
  references, which the processor mutates in place before saving them again under their
  own id; on a store where every entry is filed under its own id (\<open>wf_store\<close> below, kept
  by every operation) that is the same as replacing the entry by the updated value.
  \<open>Date.now()\<close> is a parameter of each operation that reads the clock.
\<close>

type_synonym VibeStore = "(string \<times> Vibe) list"

definition saveVibe :: "Vibe \<Rightarrow> VibeStore \<Rightarrow> VibeStore" where
  "saveVibe vibe vibes = AList.update (vid vibe) vibe vibes"

definition getVibe :: "string \<Rightarrow> VibeStore \<Rightarrow> Vibe option" where
  "getVibe i vibes = map_of vibes i"

definition getVibesByIds :: "string list \<Rightarrow> VibeStore \<Rightarrow> Vibe list" where
  "getVibesByIds ids vibes = List.map_filter (\<lambda>i. map_of vibes i) ids"

definition getAllActiveVibes :: "int \<Rightarrow> VibeStore \<Rightarrow> Vibe list" where
  "getAllActiveVibes now vibes = filter (\<lambda>vibe. expiresAt vibe > now) (map snd vibes)"

definition deleteVibe :: "string \<Rightarrow> VibeStore \<Rightarrow> bool \<times> VibeStore" where
  "deleteVibe i vibes = (i \<in> set (map fst vibes), AList.delete i vibes)"

definition deleteExpiredVibes :: "int \<Rightarrow> VibeStore \<Rightarrow> VibeStore" where
  "deleteExpiredVibes now vibes =
     fold (\<lambda>(i, vibe) m. if expiresAt vibe \<le> now then AList.delete i m else m) vibes vibes"

definition clear :: "VibeStore \<Rightarrow> VibeStore" where
  "clear vibes = []"

text \<open>Every entry is filed under its own id, and no key occurs twice.\<close>

definition wf_store :: "VibeStore \<Rightarrow> bool" where
  "wf_store vibes \<longleftrightarrow> distinct (map fst vibes) \<and> list_all (\<lambda>(i, vibe). vid vibe = i) vibes"

section \<open>The processor (core/VibeProcessor.ts): create, resonate, decay\<close>

definition VIBE_LIFESPAN_MS :: int where
  "VIBE_LIFESPAN_MS = 48 * 60 * 60 * 1000"

text \<open>\<open>uuidv4()\<close> is the parameter \<open>uuid\<close>.\<close>

definition createNewVibe ::
  "Visual \<Rightarrow> Audio \<Rightarrow> Haptic option \<Rightarrow> TextEl option \<Rightarrow> string \<Rightarrow> int \<Rightarrow> VibeStore
     \<Rightarrow> Vibe \<times> VibeStore" where
  "createNewVibe visualParams audioParams hapticParams textParams uuid now vibes =
     (let newVibe = \<lparr>vid = uuid, createdAt = now, expiresAt = now + VIBE_LIFESPAN_MS,
                     visual = visualParams, audio = audioParams, haptic = hapticParams,
                     vtext = textParams,
                     internal = \<lparr>parentVibeIds = [], resonanceScore = 0, generation = 0,
                                 lastResonatedAt = now\<rparr>\<rparr>
      in (newVibe, saveVibe newVibe vibes))"

definition resonateWithVibe :: "string \<Rightarrow> int \<Rightarrow> VibeStore \<Rightarrow> Vibe option \<times> VibeStore" where
  "resonateWithVibe vibeId now vibes =
     (case getVibe vibeId vibes of
        None \<Rightarrow> (None, vibes)
      | Some vibe \<Rightarrow>
          (let vibe' = vibe\<lparr>internal := (internal vibe)
                         \<lparr>resonanceScore := resonanceScore (internal vibe) + 1,
                          lastResonatedAt := now\<rparr>\<rparr>
           in (Some vibe', saveVibe vibe' vibes)))"

text \<open>
  The body of the \<open>forEach\<close> callback of \<open>decayVibeResonance\<close>. The processor reads the
  clock once (\<open>now\<close>); \<open>getAllActiveVibes\<close> reads it again (\<open>nowActive\<close>).
\<close>

definition decayOne :: "rat \<Rightarrow> int \<Rightarrow> Vibe \<Rightarrow> VibeStore \<Rightarrow> VibeStore" where
  "decayOne decayRate now vibe vibes =
     (let hoursSinceLastResonance =
            of_int (now - lastResonatedAt (internal vibe)) / (1000 * 60 * 60)
      in if hoursSinceLastResonance > 1
         then (let decayAmount =
                     resonanceScore (internal vibe) * decayRate * hoursSinceLastResonance;
                   vibe' = vibe\<lparr>internal := (internal vibe)
                             \<lparr>resonanceScore :=
                                max 0 (resonanceScore (internal vibe) - decayAmount)\<rparr>\<rparr>
               in saveVibe vibe' vibes)
         else vibes)"

definition decayVibeResonance :: "rat \<Rightarrow> int \<Rightarrow> int \<Rightarrow> VibeStore \<Rightarrow> VibeStore" where
  "decayVibeResonance decayRate now nowActive vibes =
     fold (decayOne decayRate now) (getAllActiveVibes nowActive vibes) vibes"

section \<open>Colour arithmetic (utils/colorUtils.ts)\<close>

definition hexDigits :: "(char \<times> int) list" where
  "hexDigits = zip ''0123456789abcdefABCDEF''
                 [0, 1, 2, 3, 4, 5, 6, 7, 8, 9, 10, 11, 12, 13, 14, 15, 10, 11, 12, 13, 14, 15]"

text \<open>The character class \<open>[a-f\d]\<close> under the flag \<open>i\<close>.\<close>

definition isHexDigit :: "char \<Rightarrow> bool" where
  "isHexDigit c \<longleftrightarrow> map_of hexDigits c \<noteq> None"

text \<open>\<open>parseInt(s, 16)\<close> on a string of two hexadecimal digits.\<close>

definition parseHexPair :: "char \<Rightarrow> char \<Rightarrow> int" where
  "parseHexPair a b =
     (case (map_of hexDigits a, map_of hexDigits b) of
        (Some x, Some y) \<Rightarrow> 16 * x + y
      | _ \<Rightarrow> 0)"

text \<open>The optional leading \<open>#\<close> of both anchored patterns.\<close>

fun stripHash :: "string \<Rightarrow> string" where
  "stripHash (c # cs) = (if c = CHR ''#'' then cs else c # cs)"
| "stripHash [] = []"

text \<open>
  \<open>hex.replace(shorthandRegex, ...)\<close>: a string that is three hexadecimal digits after
  an optional \<open>#\<close> is replaced as a whole by the six doubled digits.
\<close>

definition expandShorthand :: "string \<Rightarrow> string" where
  "expandShorthand hex =
     (case stripHash hex of
        [r, g, b] \<Rightarrow> if isHexDigit r \<and> isHexDigit g \<and> isHexDigit b
                     then [r, r, g, g, b, b] else hex
      | _ \<Rightarrow> hex)"

type_synonym rgb = "int \<times> int \<times> int"

definition hexToRgb :: "string \<Rightarrow> rgb option" where
  "hexToRgb hex =
     (case stripHash (expandShorthand hex) of
        [a, b, c, d, e, f] \<Rightarrow>
          if list_all isHexDigit [a, b, c, d, e, f]
          then Some (parseHexPair a b, parseHexPair c d, parseHexPair e f)
          else None
      | _ \<Rightarrow> None)"

text \<open>\<open>x << n\<close>: the left shift of the 32-bit signed integer.\<close>

definition shl32 :: "int \<Rightarrow> nat \<Rightarrow> int" where
  "shl32 x n = sint (push_bit n (word_of_int x :: 32 word))"

fun hexOfNat :: "nat \<Rightarrow> string" where
  "hexOfNat n = (if n < 16 then [''0123456789abcdef'' ! n]
                 else hexOfNat (n div 16) @ [''0123456789abcdef'' ! (n mod 16)])"

declare hexOfNat.simps [simp del]

text \<open>\<open>Number.prototype.toString(16)\<close> on an integer.\<close>

definition toString16 :: "int \<Rightarrow> string" where
  "toString16 i = (if i < 0 then ''-'' @ hexOfNat (nat (- i)) else hexOfNat (nat i))"

definition toUpperCase :: "string \<Rightarrow> string" where
  "toUpperCase s =
     map (\<lambda>c. case map_of (zip ''abcdefghijklmnopqrstuvwxyz'' ''ABCDEFGHIJKLMNOPQRSTUVWXYZ'') c of
                 Some u \<Rightarrow> u | None \<Rightarrow> c) s"

definition rgbToHex :: "int \<Rightarrow> int \<Rightarrow> int \<Rightarrow> string" where
  "rgbToHex r g b =
     ''#'' @ toUpperCase (drop 1 (toString16 (shl32 1 24 + shl32 r 16 + shl32 g 8 + b)))"

text \<open>\<open>Math.round\<close> rounds halves up.\<close>

definition math_round :: "rat \<Rightarrow> int" where
  "math_round x = \<lfloor>x + 1 / 2\<rfloor>"

definition interpolateRgb :: "rgb \<Rightarrow> rgb \<Rightarrow> rat \<Rightarrow> rgb" where
  "interpolateRgb color1 color2 factor =
     (case (color1, color2) of
        ((r1, g1, b1), (r2, g2, b2)) \<Rightarrow>
          (math_round (of_int r1 + factor * of_int (r2 - r1)),
           math_round (of_int g1 + factor * of_int (g2 - g1)),
           math_round (of_int b1 + factor * of_int (b2 - b1))))"

text \<open>
  \<open>Math.random()\<close> draws the next number of an explicit supply of numbers of \<open>[0, 1)\<close>;
  a computation that asks an exhausted supply for a number has no result (\<open>None\<close>).
\<close>

fun random :: "rat list \<Rightarrow> (rat \<times> rat list) option" where
  "random [] = None"
| "random (r # rs) = Some (r, rs)"

text \<open>
  \<open>Math.floor(Math.random() * n)\<close>, given the number drawn; for a number of \<open>[0, 1)\<close> and
  \<open>n > 0\<close> it is an index below \<open>n\<close>.
\<close>

definition randomIndex :: "rat \<Rightarrow> nat \<Rightarrow> nat" where
  "randomIndex r n = nat \<lfloor>r * of_nat n\<rfloor>"

text \<open>\<open>while (idx2 === idx1) idx2 = Math.floor(Math.random() * n)\<close>.\<close>

fun redraw :: "nat \<Rightarrow> nat \<Rightarrow> nat \<Rightarrow> rat list \<Rightarrow> (nat \<times> rat list) option" where
  "redraw idx1 idx2 n [] = (if idx2 = idx1 then None else Some (idx2, []))"
| "redraw idx1 idx2 n (r # rs) =
     (if idx2 = idx1 then redraw idx1 (randomIndex r n) n rs else Some (idx2, r # rs))"

text \<open>\<open>Array.from(new Set(xs))\<close>: the first occurrence of each element, in order.\<close>

definition arrayFromSet :: "'a list \<Rightarrow> 'a list" where
  "arrayFromSet xs = fold (\<lambda>x acc. if x \<in> set acc then acc else acc @ [x]) xs []"

text \<open>The three rounded channel means of \<open>blendHexPalettes\<close>.\<close>

definition averageRgb :: "rgb list \<Rightarrow> rgb" where
  "averageRgb rgbColors =
     (math_round (of_int (sum_list (map fst rgbColors)) / of_nat (length rgbColors)),
      math_round (of_int (sum_list (map (fst \<circ> snd) rgbColors)) / of_nat (length rgbColors)),
      math_round (of_int (sum_list (map (snd \<circ> snd) rgbColors)) / of_nat (length rgbColors)))"

text \<open>The loop \<open>for (i = 1; i < numColors; i++)\<close>, by the number of rounds left.\<close>

fun interpolations :: "rgb list \<Rightarrow> nat \<Rightarrow> rat list \<Rightarrow> (string list \<times> rat list) option" where
  "interpolations rgbColors 0 rs = Some ([], rs)"
| "interpolations rgbColors (Suc k) rs =
     do {
       (r1, rs1) \<leftarrow> random rs;
       (r2, rs2) \<leftarrow> random rs1;
       (idx2, rs3) \<leftarrow> (if length rgbColors > 1
                        then redraw (randomIndex r1 (length rgbColors))
                               (randomIndex r2 (length rgbColors)) (length rgbColors) rs2
                        else Some (randomIndex r2 (length rgbColors), rs2));
       (factor, rs4) \<leftarrow> random rs3;
       (others, rs5) \<leftarrow> interpolations rgbColors k rs4;
       (case interpolateRgb (rgbColors ! randomIndex r1 (length rgbColors))
                            (rgbColors ! idx2) factor of
          (r, g, b) \<Rightarrow> Some (rgbToHex r g b # others, rs5))
     }"

definition blendHexPalettes ::
  "string list \<Rightarrow> nat \<Rightarrow> rat list \<Rightarrow> (string list \<times> rat list) option" where
  "blendHexPalettes hexColors numColors rs =
     (if length hexColors = 0 then Some ([], rs)
      else if length hexColors = 1 then Some ([hexColors ! 0], rs)
      else (let rgbColors = List.map_filter hexToRgb hexColors in
            if length rgbColors = 0 then Some ([], rs)
            else do {
              (others, rs') \<leftarrow> interpolations rgbColors (numColors - 1) rs;
              (case averageRgb rgbColors of
                 (avgR, avgG, avgB) \<Rightarrow>
                   Some (take numColors (arrayFromSet (rgbToHex avgR avgG avgB # others)), rs'))
            }))"



section \<open>The processor: blending and weaving\<close>

text \<open>\<open>arr[Math.floor(Math.random() * arr.length)]\<close>.\<close>

definition randomElement :: "'a list \<Rightarrow> rat list \<Rightarrow> ('a \<times> rat list) option" where
  "randomElement arr rs =
     do { (r, rs') \<leftarrow> random rs; Some (arr ! randomIndex r (length arr), rs') }"

definition clamp100 :: "rat \<Rightarrow> rat" where
  "clamp100 x = min 100 (max 0 (of_int (math_round x)))"

definition blendVisuals :: "Visual list \<Rightarrow> rat list \<Rightarrow> (Visual \<times> rat list) option" where
  "blendVisuals visuals rs =
     (let avgIntensity = sum_list (map intensity visuals) / of_nat (length visuals) in
      do {
        (chosenAnimationType, rs1) \<leftarrow> randomElement (map animationType visuals) rs;
        (blendedPalette, rs2) \<leftarrow> blendHexPalettes (concat (map palette visuals)) 3 rs1;
        Some (\<lparr>palette = blendedPalette, animationType = chosenAnimationType,
               intensity = clamp100 avgIntensity\<rparr>, rs2)
      })"

definition blendAudios :: "Audio list \<Rightarrow> rat list \<Rightarrow> (Audio \<times> rat list) option" where
  "blendAudios audios rs =
     (let avgVolume = sum_list (map volume audios) / of_nat (length audios);
          avgPitchShift =
            sum_list (map (\<lambda>a. case pitchShift a of None \<Rightarrow> 0 | Some p \<Rightarrow> p) audios)
              / of_nat (length audios) in
      do {
        (chosenLoopUrl, rs1) \<leftarrow> randomElement (map loopUrl audios) rs;
        Some (\<lparr>loopUrl = chosenLoopUrl, volume = clamp100 avgVolume,
               pitchShift = Some avgPitchShift\<rparr>, rs1)
      })"

definition blendHaptics :: "Haptic list \<Rightarrow> rat list \<Rightarrow> (Haptic option \<times> rat list) option" where
  "blendHaptics haptics rs =
     (if length haptics = 0 then Some (None, rs)
      else (let avgIntensity = sum_list (map h_intensity haptics) / of_nat (length haptics) in
            do {
              (chosenPattern, rs1) \<leftarrow> randomElement (map pattern haptics) rs;
              Some (Some \<lparr>pattern = chosenPattern, h_intensity = clamp100 avgIntensity\<rparr>, rs1)
            }))"

definition blendTexts :: "TextEl list \<Rightarrow> rat list \<Rightarrow> (TextEl option \<times> rat list) option" where
  "blendTexts texts rs =
     (if length texts = 0 then Some (None, rs)
      else do {
        (chosenContent, rs1) \<leftarrow> randomElement (map content texts) rs;
        (blendedColor, rs2) \<leftarrow> randomElement (map color texts) rs1;
        (chosenFontStyle, rs3) \<leftarrow> randomElement (map fontStyle texts) rs2;
        Some (Some \<lparr>content = chosenContent, fontStyle = chosenFontStyle,
                    color = blendedColor\<rparr>, rs3)
      })"

text \<open>
  \<open>weaveVibes\<close> returns the new Vibe or \<open>null\<close> (the inner option), the store and the
  rest of the random supply; the parameter \<open>parentVibeIds'\<close> is the source's
  \<open>parentVibeIds\<close>. \<open>Math.max(...gens)\<close> is \<open>Max (set gens)\<close>; the list is not empty
  once both guards have been passed.
\<close>

definition weaveVibes ::
  "string list \<Rightarrow> string \<Rightarrow> int \<Rightarrow> rat list \<Rightarrow> VibeStore
     \<Rightarrow> (Vibe option \<times> VibeStore \<times> rat list) option" where
  "weaveVibes parentVibeIds' uuid now rs vibes =
     (if length parentVibeIds' = 0 \<or> length parentVibeIds' > 3 then Some (None, vibes, rs)
      else (let parentVibes = getVibesByIds parentVibeIds' vibes in
            if length parentVibes \<noteq> length parentVibeIds' then Some (None, vibes, rs)
            else do {
              (blendedVisual, rs1) \<leftarrow> blendVisuals (map visual parentVibes) rs;
              (blendedAudio, rs2) \<leftarrow> blendAudios (map audio parentVibes) rs1;
              (blendedHaptic, rs3) \<leftarrow>
                 blendHaptics (List.map_filter haptic parentVibes) rs2;
              (blendedText, rs4) \<leftarrow> blendTexts (List.map_filter vtext parentVibes) rs3;
              (let newVibe =
                     \<lparr>vid = uuid, createdAt = now, expiresAt = now + VIBE_LIFESPAN_MS,
                      visual = blendedVisual, audio = blendedAudio, haptic = blendedHaptic,
                      vtext = blendedText,
                      internal =
                        \<lparr>parentVibeIds = map vid parentVibes, resonanceScore = 0,
                         generation =
                           Max (set (map (\<lambda>v. generation (internal v)) parentVibes)) + 1,
                         lastResonatedAt = now\<rparr>\<rparr>
               in Some (Some newVibe, saveVibe newVibe vibes, rs4))
            }))"

section \<open>The processor: streams\<close>

text \<open>
  \<open>xs.sort((a, b) => b._internal.resonanceScore - a._internal.resonanceScore)\<close>:
  \<open>Array.prototype.sort\<close> is stable, so Vibes of equal score keep their order.
\<close>

definition sortByResonance :: "Vibe list \<Rightarrow> Vibe list" where
  "sortByResonance vs = sort_key (\<lambda>v. - resonanceScore (internal v)) vs"

text \<open>\<open>xs.slice(0, stop)\<close> for an integer \<open>stop\<close>: a negative \<open>stop\<close> counts from the end.\<close>

definition slice0 :: "int \<Rightarrow> 'a list \<Rightarrow> 'a list" where
  "slice0 stop xs =
     (if stop < 0 then take (nat (int (length xs) + stop)) xs else take (nat stop) xs)"

text \<open>
  \<open>Math.floor(limit * 0.7)\<close> is computed in binary64 arithmetic: the literal \<open>0.7\<close> is
  the double \<open>double07\<close>, and the product of two doubles is the exact product rounded to
  the nearest double, ties to the even significand (\<open>roundToDouble\<close>; no overflow or
  subnormal result arises for products of this size). The rounding is visible in the
  result: for \<open>limit = 90\<close> the product is just below 63 and the floor is 62.
\<close>

definition double07 :: rat where
  "double07 = 3152519739159347 / 4503599627370496"

text \<open>The binary exponent of a positive rational: \<open>2 powi expo2 x \<le> x < 2 powi (expo2 x + 1)\<close>.\<close>

definition expo2 :: "rat \<Rightarrow> int" where
  "expo2 x = (case quotient_of x of (p, q) \<Rightarrow>
                (let e = bitlen p - bitlen q in if 2 powi e \<le> x then e else e - 1))"

definition roundHalfEven :: "rat \<Rightarrow> int" where
  "roundHalfEven m =
     (let n = \<lfloor>m\<rfloor>; f = m - of_int n
      in if f < 1 / 2 then n else if f > 1 / 2 then n + 1 else if even n then n else n + 1)"

definition roundToDouble :: "rat \<Rightarrow> rat" where
  "roundToDouble x =
     (if x = 0 then 0
      else (let ulp = 2 powi (expo2 \<bar>x\<bar> - 52)
            in sgn x * of_int (roundHalfEven (\<bar>x\<bar> / ulp)) * ulp))"

definition popularCount :: "int \<Rightarrow> int" where
  "popularCount limit = \<lfloor>roundToDouble (of_int limit * double07)\<rfloor>"

text \<open>
  \<open>getStreamVibes\<close>. The first \<open>sort\<close> of the personal branch sorts \<open>allActiveVibes\<close> in
  place, so the later \<open>filter\<close> runs over the sorted array. \<open>includes\<close> compares object
  identities; the Vibes of a store whose entries are filed under their own ids are
  pairwise different values, so equality of values decides the same. The shuffle
  \<open>sort(() => 0.5 - Math.random())\<close> calls a comparator that is not consistent, which
  leaves the resulting order to the engine: it is the parameter \<open>shuffle\<close>.
\<close>

definition getStreamVibes ::
  "string \<Rightarrow> string \<Rightarrow> int \<Rightarrow> int \<Rightarrow> (Vibe list \<Rightarrow> Vibe list) \<Rightarrow> VibeStore
     \<Rightarrow> string list" where
  "getStreamVibes streamType associatedId limit now shuffle vibes =
     (let allActiveVibes = getAllActiveVibes now vibes in
      if streamType = ''personal''
      then (let sorted = sortByResonance allActiveVibes;
                highlyResonated = slice0 (popularCount limit) sorted;
                randomVibes =
                  slice0 (limit - int (length highlyResonated))
                    (shuffle (filter (\<lambda>v. v \<notin> set highlyResonated) sorted))
            in arrayFromSet (map vid (highlyResonated @ randomVibes)))
      else if streamType = ''collective''
      then map vid (slice0 limit (sortByResonance allActiveVibes))
      else [])"

text \<open>
  The stores that the processor and the store's own maintenance operations can produce
  from the empty store.
\<close>

inductive reachable :: "VibeStore \<Rightarrow> bool" where
  empty: "reachable []"
| create: "reachable vibes \<Longrightarrow>
           createNewVibe visualParams audioParams hapticParams textParams uuid now vibes
             = (newVibe, vibes') \<Longrightarrow> reachable vibes'"
| weave: "reachable vibes \<Longrightarrow>
          weaveVibes ids uuid now rs vibes = Some (result, vibes', rs') \<Longrightarrow> reachable vibes'"
| resonate: "reachable vibes \<Longrightarrow>
             resonateWithVibe vibeId now vibes = (result, vibes') \<Longrightarrow> reachable vibes'"
| decay: "reachable vibes \<Longrightarrow> reachable (decayVibeResonance decayRate now nowActive vibes)"
| sweep: "reachable vibes \<Longrightarrow> reachable (deleteExpiredVibes now vibes)"
| delete: "reachable vibes \<Longrightarrow> deleteVibe i vibes = (deleted, vibes') \<Longrightarrow> reachable vibes'"
| clear: "reachable vibes \<Longrightarrow> reachable (clear vibes)"

text \<open>The part of the data-model invariant that concerns one Vibe.\<close>

definition vibe_inv :: "Vibe \<Rightarrow> bool" where
  "vibe_inv v \<longleftrightarrow>
     (parentVibeIds (internal v) = [] \<longleftrightarrow> generation (internal v) = 0) \<and>
     0 \<le> generation (internal v) \<and> length (parentVibeIds (internal v)) \<le> 3"


definition store_inv :: "VibeStore \<Rightarrow> bool" where
  "store_inv vibes \<longleftrightarrow> wf_store vibes \<and> list_all vibe_inv (map snd vibes)"

text \<open>What the callback of \<open>decayVibeResonance\<close> leaves in the store for one Vibe.\<close>

definition decayedVibe :: "rat \<Rightarrow> int \<Rightarrow> Vibe \<Rightarrow> Vibe" where
  "decayedVibe decayRate now vibe =
     (if of_int (now - lastResonatedAt (internal vibe)) / (1000 * 60 * 60) > (1::rat)
      then vibe\<lparr>internal := (internal vibe)\<lparr>resonanceScore :=
              max 0 (resonanceScore (internal vibe)
                     - resonanceScore (internal vibe) * decayRate
                       * (of_int (now - lastResonatedAt (internal vibe)) / (1000 * 60 * 60)))\<rparr>\<rparr>
      else vibe)"

section \<open>The request layer (api/auraRoutes.ts)\<close>

datatype Body = Message string | VibeBody Vibe | Resonance string rat

type_synonym Response = "nat \<times> Body"

text \<open>\<open>req.params.vibeId\<close> may be absent (\<open>None\<close>); the empty string is falsy.\<close>

definition handleGetVibe :: "string option \<Rightarrow> int \<Rightarrow> VibeStore \<Rightarrow> Response" where
  "handleGetVibe param now vibes =
     (case param of
        None \<Rightarrow> (400, Message ''Vibe ID is required.'')
      | Some vibeId \<Rightarrow>
          if vibeId = [] then (400, Message ''Vibe ID is required.'')
          else (case getVibe vibeId vibes of
                  None \<Rightarrow> (404, Message (''Vibe with ID '' @ vibeId @ '' not found or expired.''))
                | Some vibe \<Rightarrow>
                    if expiresAt vibe \<le> now
                    then (404, Message (''Vibe with ID '' @ vibeId @ '' not found or expired.''))
                    else (200, VibeBody vibe)))"

definition handleResonateVibe ::
  "string option \<Rightarrow> int \<Rightarrow> VibeStore \<Rightarrow> Response \<times> VibeStore" where
  "handleResonateVibe param now vibes =
     (case param of
        None \<Rightarrow> ((400, Message ''Vibe ID is required.''), vibes)
      | Some vibeId \<Rightarrow>
          if vibeId = [] then ((400, Message ''Vibe ID is required.''), vibes)
          else (case resonateWithVibe vibeId now vibes of
                  (None, vibes') \<Rightarrow>
                    ((404, Message (''Vibe with ID '' @ vibeId @ '' not found or expired.'')),
                     vibes')
                | (Some updatedVibe, vibes') \<Rightarrow>
                    ((200, Resonance (vid updatedVibe)
                             (resonanceScore (internal updatedVibe))), vibes')))"

section \<open>Example values\<close>

definition exVisual :: Visual where
  "exVisual = \<lparr>palette = [''#AEC6CF'', ''#ADD8E6''], animationType = Flow, intensity = 60\<rparr>"

definition exAudio :: Audio where
  "exAudio = \<lparr>loopUrl = ''a.mp3'', volume = 70, pitchShift = None\<rparr>"

text \<open>A root Vibe with the given id, creation time, score and time of last resonance.\<close>

definition exVibe :: "string \<Rightarrow> int \<Rightarrow> rat \<Rightarrow> int \<Rightarrow> Vibe" where
  "exVibe i created score resonated =
     \<lparr>vid = i, createdAt = created, expiresAt = created + VIBE_LIFESPAN_MS,
      visual = exVisual, audio = exAudio, haptic = None, vtext = None,
      internal = \<lparr>parentVibeIds = [], resonanceScore = score, generation = 0,
                  lastResonatedAt = resonated\<rparr>\<rparr>"



text \<open>The Vibe woven at time \<open>now\<close> from the single parent \<open>exVibe ''a'' 0 0 0\<close> with the
  random numbers \<open>0, 0, 1/2, 1/2, 1/2, 0, 1/4, 0\<close>.\<close>

definition exWoven :: "int \<Rightarrow> Vibe" where
  "exWoven now =
     \<lparr>vid = ''w'', createdAt = now, expiresAt = now + VIBE_LIFESPAN_MS,
      visual = \<lparr>palette = [''#AECFDB'', ''#ADD4E0''], animationType = Flow, intensity = 60\<rparr>,
      audio = \<lparr>loopUrl = ''a.mp3'', volume = 70, pitchShift = Some 0\<rparr>,
      haptic = None, vtext = None,
      internal = \<lparr>parentVibeIds = [''a''], resonanceScore = 0, generation = 1,
                  lastResonatedAt = now\<rparr>\<rparr>"

text \<open>The Vibe woven at time 9 from the parents \<open>exWoven 5\<close> (generation 1) and
  \<open>exVibe ''a'' 0 0 0\<close> (generation 0), named in this order, with the same random numbers.\<close>

definition exWoven2 :: Vibe where
  "exWoven2 =
     \<lparr>vid = ''x'', createdAt = 9, expiresAt = 9 + VIBE_LIFESPAN_MS,
      visual = \<lparr>palette = [''#AED0DC'', ''#AECBD5'', ''#AEC8D2''], animationType = Flow,
                intensity = 60\<rparr>,
      audio = \<lparr>loopUrl = ''a.mp3'', volume = 70, pitchShift = Some 0\<rparr>,
      haptic = None, vtext = None,
      internal = \<lparr>parentVibeIds = [''w'', ''a''], resonanceScore = 0, generation = 2,
                  lastResonatedAt = 9\<rparr>\<rparr>"

text \<open>The Vibe woven at time 12 from the parents \<open>exWoven 5\<close>, \<open>exWoven2\<close> and
  \<open>exVibe ''a'' 0 0 0\<close> (generations 1, 2 and 0), named in this order, with the same random
  numbers.\<close>

definition exWoven3 :: Vibe where
  "exWoven3 =
     \<lparr>vid = ''y'', createdAt = 12, expiresAt = 12 + VIBE_LIFESPAN_MS,
      visual = \<lparr>palette = [''#AECEDA'', ''#AECDD8'', ''#AECCD7''], animationType = Flow,
                intensity = 60\<rparr>,
      audio = \<lparr>loopUrl = ''a.mp3'', volume = 70, pitchShift = Some 0\<rparr>,
      haptic = None, vtext = None,
      internal = \<lparr>parentVibeIds = [''w'', ''x'', ''a''], resonanceScore = 0, generation = 3,
                  lastResonatedAt = 12\<rparr>\<rparr>"

text \<open>Three active Vibes with scores 1, 5 and 3, and one with score 9 that expired at time 0.\<close>

definition exStore :: VibeStore where
  "exStore = [(''a'', exVibe ''a'' 0 1 0), (''b'', exVibe ''b'' 0 5 0), (''c'', exVibe ''c'' 0 3 0),
              (''d'', exVibe ''d'' (- VIBE_LIFESPAN_MS) 9 0)]"




section \<open>Store lemmas\<close>

lemma wf_store_Nil: "wf_store []"
  by (simp add: wf_store_def)

lemma wf_store_saveVibe: "wf_store vibes \<Longrightarrow> wf_store (saveVibe vibe vibes)"
proof -
  assume wf: "wf_store vibes"
  have "list_all (\<lambda>(i, v). vid v = i) (AList.update (vid vibe) vibe m)"
    if "list_all (\<lambda>(i, v). vid v = i) m" for m :: VibeStore
    using that by (induction m) auto
  with wf show ?thesis
    by (simp add: wf_store_def saveVibe_def distinct_update)
qed

lemma wf_store_lookup:
  assumes "wf_store vibes" "getVibe k vibes = Some v"
  shows "vid v = k" "(k, v) \<in> set vibes"
proof -
  from assms(2) show "(k, v) \<in> set vibes"
    by (simp add: getVibe_def map_of_SomeD)
  with assms(1) show "vid v = k"
    by (auto simp: wf_store_def list_all_iff)
qed

lemma wf_store_member:
  assumes "wf_store vibes" "v \<in> set (map snd vibes)"
  shows "getVibe (vid v) vibes = Some v"
proof -
  from assms(2) obtain k where kv: "(k, v) \<in> set vibes" by auto
  with assms(1) have "vid v = k" by (auto simp: wf_store_def list_all_iff)
  moreover from assms(1) kv have "map_of vibes k = Some v"
    by (simp add: wf_store_def)
  ultimately show ?thesis by (simp add: getVibe_def)
qed

lemma getVibe_saveVibe:
  "getVibe k (saveVibe vibe vibes) = (if k = vid vibe then Some vibe else getVibe k vibes)"
  by (simp add: getVibe_def saveVibe_def update_conv')

section \<open>Evaluating the colour arithmetic\<close>

lemma hexOfNat_small: "n < 16 \<Longrightarrow> hexOfNat n = [''0123456789abcdef'' ! n]"
  by (simp add: hexOfNat.simps)

lemma hexOfNat_large:
  "\<not> n < 16 \<Longrightarrow> hexOfNat n = hexOfNat (n div 16) @ [''0123456789abcdef'' ! (n mod 16)]"
  by (subst hexOfNat.simps) simp

lemma floor_numeral_div:
  "\<lfloor>(numeral a / numeral b :: rat)\<rfloor> = (numeral a div numeral b :: int)"
  using floor_divide_of_int_eq [of "numeral a" "numeral b", where ?'a = rat] by simp

lemma floor_neg_numeral_div:
  "\<lfloor>(- numeral a / numeral b :: rat)\<rfloor> = (- numeral a div numeral b :: int)"
  using floor_divide_of_int_eq [of "- numeral a" "numeral b", where ?'a = rat] by simp

lemma floor_one_div:
  "\<lfloor>(1 / numeral b :: rat)\<rfloor> = (1 div numeral b :: int)"
  using floor_divide_of_int_eq [of 1 "numeral b", where ?'a = rat] by simp

lemma floor_neg_one_div:
  "\<lfloor>(- 1 / numeral b :: rat)\<rfloor> = (- 1 div numeral b :: int)"
  using floor_divide_of_int_eq [of "- 1" "numeral b", where ?'a = rat] by simp

lemma interpolations_numeral:
  "interpolations c (numeral k) rs = interpolations c (Suc (pred_numeral k)) rs"
  by (simp add: numeral_eq_Suc)

lemmas colour_eval = hexOfNat_small hexOfNat_large toString16_def toUpperCase_def rgbToHex_def
  shl32_def hexToRgb_def expandShorthand_def isHexDigit_def hexDigits_def parseHexPair_def
  math_round_def interpolateRgb_def randomIndex_def averageRgb_def arrayFromSet_def
  blendHexPalettes_def List.map_filter_def floor_numeral_div floor_neg_numeral_div floor_one_div floor_neg_one_div
  interpolations_numeral

section \<open>Decay\<close>

lemma decayOne_wf: "wf_store vibes \<Longrightarrow> wf_store (decayOne r now v vibes)"
  by (simp add: decayOne_def Let_def wf_store_saveVibe)

lemma fold_decayOne_wf: "wf_store vibes \<Longrightarrow> wf_store (fold (decayOne r now) vs vibes)"
  by (induction vs arbitrary: vibes) (simp_all add: decayOne_wf)

lemma wf_store_decay: "wf_store vibes \<Longrightarrow> wf_store (decayVibeResonance r now na vibes)"
  by (simp add: decayVibeResonance_def fold_decayOne_wf)

lemma vid_decayedVibe: "vid (decayedVibe r now v) = vid v"
  by (simp add: decayedVibe_def)


lemma fold_decayOne_other:
  "\<forall>v \<in> set vs. vid v \<noteq> k \<Longrightarrow> getVibe k (fold (decayOne r now) vs vibes) = getVibe k vibes"
  by (induction vs arbitrary: vibes) (auto simp: decayOne_def Let_def getVibe_saveVibe)

lemma getVibe_decayOne_same:
  "getVibe (vid v) vibes = Some v \<Longrightarrow> getVibe (vid v) (decayOne r now v vibes) = Some (decayedVibe r now v)"
  by (simp add: decayOne_def decayedVibe_def Let_def getVibe_saveVibe)

lemma fold_decayOne_mem:
  "distinct (map vid vs) \<Longrightarrow> v \<in> set vs \<Longrightarrow> getVibe (vid v) vibes = Some v \<Longrightarrow>
   getVibe (vid v) (fold (decayOne r now) vs vibes) = Some (decayedVibe r now v)"
proof (induction vs arbitrary: vibes)
  case Nil
  then show ?case by simp
next
  case (Cons a vs)
  show ?case
  proof (cases "a = v")
    case True
    with Cons.prems have "\<forall>w \<in> set vs. vid w \<noteq> vid v" by (auto simp: image_iff)
    then have "getVibe (vid v) (fold (decayOne r now) vs (decayOne r now v vibes))
               = getVibe (vid v) (decayOne r now v vibes)"
      by (rule fold_decayOne_other)
    with True Cons.prems(3) show ?thesis
      by (simp add: getVibe_decayOne_same)
  next
    case False
    with Cons.prems have mem: "v \<in> set vs" and ne: "vid a \<noteq> vid v" and d: "distinct (map vid vs)"
      by auto
    from ne Cons.prems(3) have "getVibe (vid v) (decayOne r now a vibes) = Some v"
      by (simp add: decayOne_def Let_def getVibe_saveVibe)
    from Cons.IH [OF d mem this] show ?thesis by simp
  qed
qed

lemma wf_store_distinct_vid: "wf_store vibes \<Longrightarrow> distinct (map vid (map snd vibes))"
proof -
  assume wf: "wf_store vibes"
  then have "\<forall>e \<in> set vibes. vid (snd e) = fst e"
    by (auto simp: wf_store_def list_all_iff)
  then have eq: "map vid (map snd vibes) = map fst vibes"
    by simp
  from wf have "distinct (map fst vibes)" by (simp add: wf_store_def)
  then show ?thesis unfolding eq .
qed

lemma getVibe_decay_active:
  assumes "wf_store vibes" "getVibe k vibes = Some v" "expiresAt v > na"
  shows "getVibe k (decayVibeResonance r now na vibes) = Some (decayedVibe r now v)"
proof -
  from assms(1,2) have k: "vid v = k" and mem: "(k, v) \<in> set vibes"
    by (rule wf_store_lookup)+
  from mem assms(3) have "v \<in> set (getAllActiveVibes na vibes)"
    by (force simp: getAllActiveVibes_def)
  moreover from assms(1) have "distinct (map vid (getAllActiveVibes na vibes))"
    unfolding getAllActiveVibes_def by (intro distinct_map_filter wf_store_distinct_vid)
  ultimately show ?thesis
    using assms(2) k unfolding decayVibeResonance_def
    by (auto intro: fold_decayOne_mem)
qed

lemma getVibe_decay_inactive:
  assumes "wf_store vibes" "getVibe k vibes = Some v" "expiresAt v \<le> na"
  shows "getVibe k (decayVibeResonance r now na vibes) = Some v"
proof -
  have "\<forall>w \<in> set (getAllActiveVibes na vibes). vid w \<noteq> k"
  proof
    fix w assume w: "w \<in> set (getAllActiveVibes na vibes)"
    then have "w \<in> set (map snd vibes)" and act: "expiresAt w > na"
      by (auto simp: getAllActiveVibes_def)
    with assms(1) have "getVibe (vid w) vibes = Some w" by (simp add: wf_store_member)
    with assms(2,3) act show "vid w \<noteq> k" by auto
  qed
  then show ?thesis
    unfolding decayVibeResonance_def using assms(2) by (simp add: fold_decayOne_other)
qed


section \<open>Weaving\<close>

lemma length_map_filter_le: "length (List.map_filter f xs) \<le> length xs"
  by (simp add: List.map_filter_def)

lemma map_filter_full:
  "length (List.map_filter f xs) = length xs \<Longrightarrow> map Some (List.map_filter f xs) = map f xs"
proof (induction xs)
  case Nil
  then show ?case by (simp add: List.map_filter_def)
next
  case (Cons x xs)
  show ?case
  proof (cases "f x")
    case None
    then have "List.map_filter f (x # xs) = List.map_filter f xs"
      by (simp add: List.map_filter_def)
    with Cons.prems length_map_filter_le [of f xs] show ?thesis by simp
  next
    case (Some y)
    then have eq: "List.map_filter f (x # xs) = y # List.map_filter f xs"
      by (simp add: List.map_filter_def)
    with Cons.prems have "length (List.map_filter f xs) = length xs" by simp
    with Cons.IH eq Some show ?thesis by simp
  qed
qed

lemma getVibesByIds_resolved:
  assumes "length (getVibesByIds ids vibes) = length ids"
  shows "map Some (getVibesByIds ids vibes) = map (\<lambda>i. getVibe i vibes) ids"
  using assms unfolding getVibesByIds_def getVibe_def by (rule map_filter_full)

lemma getVibesByIds_unresolved:
  assumes "i \<in> set ids" "getVibe i vibes = None"
  shows "length (getVibesByIds ids vibes) \<noteq> length ids"
proof
  assume "length (getVibesByIds ids vibes) = length ids"
  then have "map Some (getVibesByIds ids vibes) = map (\<lambda>i. getVibe i vibes) ids"
    by (rule getVibesByIds_resolved)
  then have "set (map (\<lambda>i. getVibe i vibes) ids) = set (map Some (getVibesByIds ids vibes))"
    by simp
  with assms show False by force
qed

lemma getVibesByIds_ids:
  assumes "wf_store vibes" "length (getVibesByIds ids vibes) = length ids"
  shows "map vid (getVibesByIds ids vibes) = ids"
proof -
  from assms(2) have eq: "map Some (getVibesByIds ids vibes) = map (\<lambda>i. getVibe i vibes) ids"
    by (rule getVibesByIds_resolved)
  show ?thesis
  proof (rule nth_equalityI)
    show "length (map vid (getVibesByIds ids vibes)) = length ids"
      using assms(2) by simp
  next
    fix n assume "n < length (map vid (getVibesByIds ids vibes))"
    then have n: "n < length ids" using assms(2) by simp
    with eq assms(2) have "Some (getVibesByIds ids vibes ! n) = getVibe (ids ! n) vibes"
      by (metis length_map nth_map)
    with assms(1) have "vid (getVibesByIds ids vibes ! n) = ids ! n"
      using wf_store_lookup(1) by metis
    with n assms(2) show "map vid (getVibesByIds ids vibes) ! n = ids ! n" by simp
  qed
qed

lemma getVibesByIds_subset:
  "set (getVibesByIds ids vibes) \<subseteq> set (map snd vibes)"
proof
  fix v assume "v \<in> set (getVibesByIds ids vibes)"
  then obtain i where "map_of vibes i = Some v"
    by (auto simp: getVibesByIds_def List.map_filter_def)
  then have "(i, v) \<in> set vibes" by (rule map_of_SomeD)
  then show "v \<in> set (map snd vibes)" by force
qed

lemma weaveVibes_invalid_count:
  "length ids = 0 \<or> length ids > 3 \<Longrightarrow> weaveVibes ids uuid now rs vibes = Some (None, vibes, rs)"
  by (simp add: weaveVibes_def)

lemma weaveVibes_unresolved:
  assumes "i \<in> set ids" "getVibe i vibes = None"
  shows "weaveVibes ids uuid now rs vibes = Some (None, vibes, rs)"
  using getVibesByIds_unresolved [OF assms] by (simp add: weaveVibes_def Let_def)

lemma weaveVibes_success:
  assumes "weaveVibes ids uuid now rs vibes = Some (Some w, vibes', rs')"
  shows "1 \<le> length ids" and "length ids \<le> 3"
    and "length (getVibesByIds ids vibes) = length ids"
    and "vid w = uuid" and "createdAt w = now" and "expiresAt w = now + VIBE_LIFESPAN_MS"
    and "internal w =
           \<lparr>parentVibeIds = map vid (getVibesByIds ids vibes), resonanceScore = 0,
            generation = Max (set (map (\<lambda>v. generation (internal v)) (getVibesByIds ids vibes))) + 1,
            lastResonatedAt = now\<rparr>"
    and "vibes' = saveVibe w vibes"
    and "\<exists>rs1 rs2. randomElement (map animationType (map visual (getVibesByIds ids vibes))) rs
                      = Some (animationType (visual w), rs1) \<and>
                    blendHexPalettes (concat (map palette (map visual (getVibesByIds ids vibes)))) 3 rs1
                      = Some (palette (visual w), rs2)"
  using assms
  by (auto simp: weaveVibes_def blendVisuals_def Let_def Suc_le_eq split: if_splits bind_splits)


section \<open>The blended palette\<close>



lemma fold_arrayFromSet_set:
  "set (fold (\<lambda>x acc. if x \<in> set acc then acc else acc @ [x]) xs acc) = set acc \<union> set xs"
  by (induction xs arbitrary: acc) auto

lemma set_arrayFromSet: "set (arrayFromSet xs) = set xs"
  by (simp add: arrayFromSet_def fold_arrayFromSet_set)




lemma redraw_differs: "redraw idx1 idx2 n rs = Some (j, rs') \<Longrightarrow> j \<noteq> idx1"
  by (induction idx1 idx2 n rs rule: redraw.induct) (auto split: if_splits)

lemma redraw_immediate: "idx2 \<noteq> idx1 \<Longrightarrow> redraw idx1 idx2 n rs = Some (idx2, rs)"
  by (cases rs) auto









section \<open>Reachable stores keep the invariants\<close>

lemma set_saveVibe: "set (saveVibe v vibes) \<subseteq> insert (vid v, v) (set vibes)"
  unfolding saveVibe_def by (induction vibes) auto

lemma set_delete: "set (AList.delete k vibes) \<subseteq> set vibes"
  by (auto simp: AList.delete_eq)

lemma wf_store_subset_delete: "wf_store vibes \<Longrightarrow> wf_store (AList.delete k vibes)"
  using set_delete [of k vibes]
  by (auto simp: wf_store_def distinct_delete list_all_iff)

lemma store_inv_Nil: "store_inv []"
  by (simp add: store_inv_def wf_store_Nil)

lemma store_inv_saveVibe:
  assumes "store_inv vibes" "vibe_inv v"
  shows "store_inv (saveVibe v vibes)"
proof -
  from assms(1) have "wf_store (saveVibe v vibes)"
    by (simp add: store_inv_def wf_store_saveVibe)
  moreover have "list_all vibe_inv (map snd (saveVibe v vibes))"
    using assms set_saveVibe [of v vibes]
    by (auto simp: store_inv_def list_all_iff)
  ultimately show ?thesis by (simp add: store_inv_def)
qed

lemma store_inv_delete: "store_inv vibes \<Longrightarrow> store_inv (AList.delete k vibes)"
  using set_delete [of k vibes]
  by (auto simp: store_inv_def wf_store_subset_delete list_all_iff)

lemma store_inv_member:
  "store_inv vibes \<Longrightarrow> v \<in> set (map snd vibes) \<Longrightarrow> vibe_inv v"
  by (auto simp: store_inv_def list_all_iff)

lemma vibe_inv_created:
  "createNewVibe vp ap hp tp uuid now vibes = (v, vibes') \<Longrightarrow> vibe_inv v \<and> vibes' = saveVibe v vibes"
  by (auto simp: createNewVibe_def vibe_inv_def Let_def)

lemma parents_generation_nonneg:
  assumes "store_inv vibes" "ids \<noteq> []" "length (getVibesByIds ids vibes) = length ids"
  shows "0 \<le> Max (set (map (\<lambda>v. generation (internal v)) (getVibesByIds ids vibes)))"
proof -
  from assms(2,3) obtain p where p: "p \<in> set (getVibesByIds ids vibes)"
    by (cases "getVibesByIds ids vibes") auto
  with getVibesByIds_subset have "p \<in> set (map snd vibes)" by blast
  with assms(1) have "0 \<le> generation (internal p)"
    using store_inv_member vibe_inv_def by blast
  also from p have "generation (internal p)
        \<le> Max (set (map (\<lambda>v. generation (internal v)) (getVibesByIds ids vibes)))"
    by (intro Max_ge) auto
  finally show ?thesis .
qed

lemma vibe_inv_woven:
  assumes "store_inv vibes" "weaveVibes ids uuid now rs vibes = Some (Some w, vibes', rs')"
  shows "vibe_inv w"
proof -
  note s = weaveVibes_success [OF assms(2)]
  from s(1) have ne: "ids \<noteq> []" by auto
  from ne s(3) have "getVibesByIds ids vibes \<noteq> []" by auto
  with parents_generation_nonneg [OF assms(1) ne s(3)] s(1,2,3,7)
  show ?thesis by (simp add: vibe_inv_def)
qed

lemma store_inv_weave:
  assumes "store_inv vibes" "weaveVibes ids uuid now rs vibes = Some (r, vibes', rs')"
  shows "store_inv vibes'"
proof (cases r)
  case None
  with assms(2) have "vibes' = vibes"
    by (auto simp: weaveVibes_def Let_def split: if_splits bind_splits)
  with assms(1) show ?thesis by simp
next
  case (Some w)
  with assms have "vibe_inv w" and "vibes' = saveVibe w vibes"
    using vibe_inv_woven weaveVibes_success(8) by blast+
  with assms(1) show ?thesis by (simp add: store_inv_saveVibe)
qed

lemma store_inv_resonate:
  assumes "store_inv vibes" "resonateWithVibe vibeId now vibes = (r, vibes')"
  shows "store_inv vibes'"
proof (cases "getVibe vibeId vibes")
  case None
  with assms show ?thesis by (simp add: resonateWithVibe_def)
next
  case (Some v)
  then have "v \<in> set (map snd vibes)"
    by (force simp: getVibe_def dest: map_of_SomeD)
  with assms(1) have "vibe_inv v" by (rule store_inv_member)
  then have "vibe_inv (v\<lparr>internal := (internal v)
                         \<lparr>resonanceScore := resonanceScore (internal v) + 1,
                          lastResonatedAt := now\<rparr>\<rparr>)"
    by (simp add: vibe_inv_def)
  with assms Some show ?thesis
    by (auto simp: resonateWithVibe_def Let_def store_inv_saveVibe)
qed

lemma store_inv_decayOne:
  "store_inv vibes \<Longrightarrow> vibe_inv v \<Longrightarrow> store_inv (decayOne r now v vibes)"
  by (auto simp: decayOne_def Let_def vibe_inv_def intro!: store_inv_saveVibe)

lemma store_inv_fold_decayOne:
  "store_inv vibes \<Longrightarrow> \<forall>v \<in> set vs. vibe_inv v \<Longrightarrow> store_inv (fold (decayOne r now) vs vibes)"
  by (induction vs arbitrary: vibes) (simp_all add: store_inv_decayOne)

lemma store_inv_decay:
  assumes "store_inv vibes"
  shows "store_inv (decayVibeResonance r now na vibes)"
proof -
  have "\<forall>v \<in> set (getAllActiveVibes na vibes). vibe_inv v"
    using assms by (auto simp: getAllActiveVibes_def store_inv_def list_all_iff)
  with assms show ?thesis
    unfolding decayVibeResonance_def by (rule store_inv_fold_decayOne)
qed

lemma store_inv_sweep:
  assumes "store_inv vibes"
  shows "store_inv (deleteExpiredVibes now vibes)"
proof -
  have "store_inv m \<Longrightarrow>
        store_inv (fold (\<lambda>(i, vibe) m. if expiresAt vibe \<le> now then AList.delete i m else m) es m)"
    for es m :: VibeStore
    by (induction es arbitrary: m) (auto simp: store_inv_delete)
  with assms show ?thesis by (simp add: deleteExpiredVibes_def)
qed

lemma reachable_store_inv: "reachable vibes \<Longrightarrow> store_inv vibes"
proof (induction rule: reachable.induct)
  case empty
  show ?case by (rule store_inv_Nil)
next
  case (create vibes visualParams audioParams hapticParams textParams uuid now newVibe vibes')
  then show ?case using vibe_inv_created store_inv_saveVibe by blast
next
  case (weave vibes ids uuid now rs result vibes' rs')
  then show ?case using store_inv_weave by blast
next
  case (resonate vibes vibeId now result vibes')
  then show ?case using store_inv_resonate by blast
next
  case (decay vibes decayRate now nowActive)
  then show ?case by (simp add: store_inv_decay)
next
  case (sweep vibes now)
  then show ?case by (simp add: store_inv_sweep)
next
  case (delete vibes i deleted vibes')
  then show ?case by (auto simp: deleteVibe_def store_inv_delete)
next
  case (clear vibes)
  show ?case by (simp add: clear_def store_inv_Nil)
qed

lemma reachable_wf_store: "reachable vibes \<Longrightarrow> wf_store vibes"
  using reachable_store_inv store_inv_def by blast


section \<open>Worked examples of weaving\<close>

lemmas weave_eval = weaveVibes_def getVibesByIds_def blendVisuals_def blendAudios_def
  blendHaptics_def blendTexts_def randomElement_def clamp100_def saveVibe_def Let_def

lemma weave_example:
  "weaveVibes [''a''] ''w'' now [0, 0, 1/2, 1/2, 1/2, 0, 1/4, 0] [(''a'', exVibe ''a'' 0 0 0)]
   = Some (Some (exWoven now),
           [(''a'', exVibe ''a'' 0 0 0), (''w'', exWoven now)], [])"
  by (simp add: weave_eval colour_eval exVibe_def exWoven_def exVisual_def exAudio_def)

lemma weave_two_parents_example:
  "weaveVibes [''w'', ''a''] ''x'' 9 [0, 0, 1/2, 1/2, 1/2, 0, 1/4, 0]
     [(''a'', exVibe ''a'' 0 0 0), (''w'', exWoven 5)]
   = Some (Some exWoven2,
           [(''a'', exVibe ''a'' 0 0 0), (''w'', exWoven 5), (''x'', exWoven2)], [])"
  by (simp add: weave_eval colour_eval exVibe_def exWoven_def exWoven2_def exVisual_def
      exAudio_def)

lemma weave_three_parents_example:
  "weaveVibes [''w'', ''x'', ''a''] ''y'' 12 [0, 0, 1/2, 1/2, 1/2, 0, 1/4, 0]
     [(''a'', exVibe ''a'' 0 0 0), (''w'', exWoven 5), (''x'', exWoven2)]
   = Some (Some exWoven3,
           [(''a'', exVibe ''a'' 0 0 0), (''w'', exWoven 5), (''x'', exWoven2),
            (''y'', exWoven3)], [])"
  by (simp add: weave_eval colour_eval exVibe_def exWoven_def exWoven2_def exWoven3_def
      exVisual_def exAudio_def)





section \<open>The double product \<open>limit * 0.7\<close>\<close>














section \<open>Ranking\<close>

lemma slice0_nonneg: "0 \<le> stop \<Longrightarrow> slice0 stop xs = take (nat stop) xs"
  by (simp add: slice0_def)

lemma set_sortByResonance: "set (sortByResonance vs) = set vs"
  by (simp add: sortByResonance_def)

lemma length_sortByResonance: "length (sortByResonance vs) = length vs"
  by (simp add: sortByResonance_def)

lemma mset_sortByResonance: "mset (sortByResonance vs) = mset vs"
  by (simp add: sortByResonance_def)


lemma sorted_sortByResonance:
  "sorted_wrt (\<lambda>a b. resonanceScore (internal b) \<le> resonanceScore (internal a))
     (sortByResonance vs)"
proof -
  have "sorted (map (\<lambda>v. - resonanceScore (internal v)) (sortByResonance vs))"
    unfolding sortByResonance_def by (rule sorted_sort_key)
  then show ?thesis by (simp add: sorted_map)
qed

text \<open>The first \<open>n\<close> of a list sorted by score are sorted and dominate the rest.\<close>

lemma top_of_sorted:
  assumes "sorted_wrt (\<lambda>a b. resonanceScore (internal b) \<le> resonanceScore (internal a)) xs"
  shows "sorted_wrt (\<lambda>a b. resonanceScore (internal b) \<le> resonanceScore (internal a)) (take n xs)"
    and "\<forall>u \<in> set (drop n xs). \<forall>v \<in> set (take n xs).
           resonanceScore (internal u) \<le> resonanceScore (internal v)"
proof -
  from assms have s: "sorted_wrt (\<lambda>a b. resonanceScore (internal b) \<le> resonanceScore (internal a))
                    (take n xs @ drop n xs)" by simp
  then show "sorted_wrt (\<lambda>a b. resonanceScore (internal b) \<le> resonanceScore (internal a)) (take n xs)"
    unfolding sorted_wrt_append by blast
  from s show "\<forall>u \<in> set (drop n xs). \<forall>v \<in> set (take n xs).
           resonanceScore (internal u) \<le> resonanceScore (internal v)"
    unfolding sorted_wrt_append by blast
qed



lemma active_member:
  assumes "wf_store vibes" "v \<in> set (getAllActiveVibes now vibes)"
  shows "getVibe (vid v) vibes = Some v" and "now < expiresAt v"
proof -
  from assms(2) have "v \<in> set (map snd vibes)" and e: "now < expiresAt v"
    by (auto simp: getAllActiveVibes_def)
  with assms(1) show "getVibe (vid v) vibes = Some v" by (simp add: wf_store_member)
  from e show "now < expiresAt v" .
qed


section \<open>Claims on decay, resonance and lookup\<close>

text \<open>
  Claim C3. One invocation of decay, on a Vibe that is active when the store is read:
  the score is unchanged when at most one hour has passed since \<open>lastResonatedAt\<close>, and
  otherwise becomes \<open>max 0 (score - score * rate * hoursElapsed)\<close> with
  \<open>hoursElapsed = (now - lastResonatedAt) / 3600000\<close>; a score that was not negative
  stays so.
\<close>

theorem decay_resonance_score:
  assumes "wf_store vibes" and "getVibe k vibes = Some v" and "expiresAt v > nowActive"
  shows "\<exists>v'. getVibe k (decayVibeResonance rate now nowActive vibes) = Some v' \<and>
           resonanceScore (internal v') =
             (let hoursElapsed = of_int (now - lastResonatedAt (internal v)) / 3600000
              in if hoursElapsed \<le> 1 then resonanceScore (internal v)
                 else max 0 (resonanceScore (internal v)
                             - resonanceScore (internal v) * rate * hoursElapsed)) \<and>
           (0 \<le> resonanceScore (internal v) \<longrightarrow> 0 \<le> resonanceScore (internal v'))"
proof -
  have "getVibe k (decayVibeResonance rate now nowActive vibes) = Some (decayedVibe rate now v)"
    using assms by (rule getVibe_decay_active)
  then show ?thesis
    by (simp add: decayedVibe_def Let_def not_le)
qed

theorem decay_resonance_score_witness:
  "wf_store [(''a'', exVibe ''a'' 0 3 0)] \<and>
   getVibe ''a'' [(''a'', exVibe ''a'' 0 3 0)] = Some (exVibe ''a'' 0 3 0) \<and>
   expiresAt (exVibe ''a'' 0 3 0) > 7200000 \<and>
   (\<exists>v'. getVibe ''a'' (decayVibeResonance 1 7200000 7200000 [(''a'', exVibe ''a'' 0 3 0)])
            = Some v' \<and> resonanceScore (internal v') = 0)"
proof -
  have h1: "wf_store [(''a'', exVibe ''a'' 0 3 0)]"
    by (simp add: wf_store_def exVibe_def)
  have h2: "getVibe ''a'' [(''a'', exVibe ''a'' 0 3 0)] = Some (exVibe ''a'' 0 3 0)"
    by (simp add: getVibe_def)
  have h3: "expiresAt (exVibe ''a'' 0 3 0) > 7200000"
    by (simp add: exVibe_def VIBE_LIFESPAN_MS_def)
  from decay_resonance_score [OF h1 h2 h3, of 1 7200000]
  have "\<exists>v'. getVibe ''a'' (decayVibeResonance 1 7200000 7200000 [(''a'', exVibe ''a'' 0 3 0)])
            = Some v' \<and> resonanceScore (internal v') = 0"
    by (auto simp add: exVibe_def Let_def)
  with h1 h2 h3 show ?thesis by blast
qed

text \<open>
  Claim C10. One invocation of decay changes at most \<open>resonanceScore\<close> of an active Vibe:
  the stored Vibe is the old one with that single field replaced, so \<open>lastResonatedAt\<close>
  in particular is not refreshed. A second invocation (while the Vibe is still active)
  therefore measures the hours from the same original \<open>lastResonatedAt\<close> and applies its
  reduction to the already reduced score.
\<close>

theorem decay_frame:
  assumes "wf_store vibes" and "getVibe k vibes = Some v" and "expiresAt v > nowActive"
  shows "\<exists>v'. getVibe k (decayVibeResonance rate now nowActive vibes) = Some v' \<and>
           v' = v\<lparr>internal := (internal v)\<lparr>resonanceScore := resonanceScore (internal v')\<rparr>\<rparr> \<and>
           lastResonatedAt (internal v') = lastResonatedAt (internal v) \<and>
           (expiresAt v > nowActive2 \<longrightarrow>
             (\<exists>v''. getVibe k (decayVibeResonance rate now2 nowActive2
                                 (decayVibeResonance rate now nowActive vibes)) = Some v'' \<and>
                v'' = v\<lparr>internal := (internal v)\<lparr>resonanceScore := resonanceScore (internal v'')\<rparr>\<rparr> \<and>
                resonanceScore (internal v'') =
                  (let hoursElapsed2 = of_int (now2 - lastResonatedAt (internal v)) / 3600000
                   in if hoursElapsed2 \<le> 1 then resonanceScore (internal v')
                      else max 0 (resonanceScore (internal v')
                                  - resonanceScore (internal v') * rate * hoursElapsed2))))"
proof -
  let ?s1 = "decayVibeResonance rate now nowActive vibes"
  let ?v1 = "decayedVibe rate now v"
  have g1: "getVibe k ?s1 = Some ?v1"
    using assms by (rule getVibe_decay_active)
  have wf1: "wf_store ?s1"
    using assms(1) by (rule wf_store_decay)
  have ex1: "expiresAt ?v1 = expiresAt v"
    by (simp add: decayedVibe_def)
  have f1: "?v1 = v\<lparr>internal := (internal v)\<lparr>resonanceScore := resonanceScore (internal ?v1)\<rparr>\<rparr>"
    by (simp add: decayedVibe_def)
  have l1: "lastResonatedAt (internal ?v1) = lastResonatedAt (internal v)"
    by (simp add: decayedVibe_def)
  have second: "\<exists>v''. getVibe k (decayVibeResonance rate now2 nowActive2 ?s1) = Some v'' \<and>
                v'' = v\<lparr>internal := (internal v)\<lparr>resonanceScore := resonanceScore (internal v'')\<rparr>\<rparr> \<and>
                resonanceScore (internal v'') =
                  (let hoursElapsed2 = of_int (now2 - lastResonatedAt (internal v)) / 3600000
                   in if hoursElapsed2 \<le> 1 then resonanceScore (internal ?v1)
                      else max 0 (resonanceScore (internal ?v1)
                                  - resonanceScore (internal ?v1) * rate * hoursElapsed2))"
    if act2: "expiresAt v > nowActive2"
  proof -
    from act2 ex1 have "expiresAt ?v1 > nowActive2" by simp
    with wf1 g1 have g2: "getVibe k (decayVibeResonance rate now2 nowActive2 ?s1)
                          = Some (decayedVibe rate now2 ?v1)"
      by (rule getVibe_decay_active)
    have f2: "decayedVibe rate now2 ?v1 =
              v\<lparr>internal := (internal v)\<lparr>resonanceScore :=
                   resonanceScore (internal (decayedVibe rate now2 ?v1))\<rparr>\<rparr>"
      by (simp add: decayedVibe_def)
    have s2: "resonanceScore (internal (decayedVibe rate now2 ?v1)) =
                  (let hoursElapsed2 = of_int (now2 - lastResonatedAt (internal v)) / 3600000
                   in if hoursElapsed2 \<le> 1 then resonanceScore (internal ?v1)
                      else max 0 (resonanceScore (internal ?v1)
                                  - resonanceScore (internal ?v1) * rate * hoursElapsed2))"
      unfolding decayedVibe_def [of rate now2] l1 by (simp add: Let_def not_le)
    from g2 f2 s2 show ?thesis by blast
  qed
  from g1 f1 l1 second show ?thesis by blast
qed

theorem decay_frame_witness:
  "wf_store [(''a'', exVibe ''a'' 0 8 0)] \<and>
   getVibe ''a'' [(''a'', exVibe ''a'' 0 8 0)] = Some (exVibe ''a'' 0 8 0) \<and>
   expiresAt (exVibe ''a'' 0 8 0) > 7200000 \<and>
   (\<exists>v'. getVibe ''a'' (decayVibeResonance (1/4) 7200000 7200000 [(''a'', exVibe ''a'' 0 8 0)])
            = Some v' \<and> v' = exVibe ''a'' 0 4 0 \<and>
     (\<exists>v''. getVibe ''a'' (decayVibeResonance (1/4) 7200000 7200000
               (decayVibeResonance (1/4) 7200000 7200000 [(''a'', exVibe ''a'' 0 8 0)]))
            = Some v'' \<and> v'' = exVibe ''a'' 0 2 0))"
proof -
  have h1: "wf_store [(''a'', exVibe ''a'' 0 8 0)]"
    by (simp add: wf_store_def exVibe_def)
  have h2: "getVibe ''a'' [(''a'', exVibe ''a'' 0 8 0)] = Some (exVibe ''a'' 0 8 0)"
    by (simp add: getVibe_def)
  have h3: "expiresAt (exVibe ''a'' 0 8 0) > 7200000"
    by (simp add: exVibe_def VIBE_LIFESPAN_MS_def)
  have eval: "decayVibeResonance (1/4) 7200000 7200000 [(''a'', exVibe ''a'' 0 8 0)]
              = [(''a'', exVibe ''a'' 0 4 0)]"
    by (simp add: decayVibeResonance_def getAllActiveVibes_def decayOne_def saveVibe_def
        exVibe_def VIBE_LIFESPAN_MS_def Let_def)
  have eval2: "decayVibeResonance (1/4) 7200000 7200000 [(''a'', exVibe ''a'' 0 4 0)]
              = [(''a'', exVibe ''a'' 0 2 0)]"
    by (simp add: decayVibeResonance_def getAllActiveVibes_def decayOne_def saveVibe_def
        exVibe_def VIBE_LIFESPAN_MS_def Let_def)
  from decay_frame [OF h1 h2 h3, of "1/4" 7200000 7200000 7200000] h3
  show ?thesis using h1 h2
    by (simp add: eval eval2 getVibe_def)
qed

text \<open>
  Claim C1, at an expired Vibe that the sweep has not yet removed: \<open>resonateWithVibe\<close>
  looks the id up with \<open>getVibe\<close>, which does not read \<open>expiresAt\<close>, so the call
  succeeds, raises the score from 0 to 1 and refreshes \<open>lastResonatedAt\<close>; the request
  handler answers 200.
\<close>

theorem resonate_expired_vibe:
  "expiresAt (exVibe ''a'' 0 0 0) \<le> VIBE_LIFESPAN_MS + 1 \<and>
   resonateWithVibe ''a'' (VIBE_LIFESPAN_MS + 1) [(''a'', exVibe ''a'' 0 0 0)] =
     (Some (exVibe ''a'' 0 1 (VIBE_LIFESPAN_MS + 1)),
      [(''a'', exVibe ''a'' 0 1 (VIBE_LIFESPAN_MS + 1))]) \<and>
   fst (handleResonateVibe (Some ''a'') (VIBE_LIFESPAN_MS + 1) [(''a'', exVibe ''a'' 0 0 0)]) =
     (200, Resonance ''a'' 1)"
  by (simp add: resonateWithVibe_def handleResonateVibe_def getVibe_def saveVibe_def exVibe_def Let_def)

text \<open>The part of C1 that the code does keep: an id absent from the store.\<close>

lemma resonate_missing:
  "getVibe vibeId vibes = None \<Longrightarrow> resonateWithVibe vibeId now vibes = (None, vibes)"
  by (simp add: resonateWithVibe_def)

text \<open>
  Claim C7. For an id whose stored Vibe has \<open>expiresAt \<le> now\<close>, the lookup handler never
  answers with the Vibe, whether or not a sweep has run: the answer is 404 "not found or
  expired" (an empty id, which no uuid is, is answered 400 before the store is read).
\<close>

theorem handleGetVibe_expired:
  assumes "getVibe vibeId vibes = Some v" and "expiresAt v \<le> now"
  shows "(\<forall>w. snd (handleGetVibe (Some vibeId) now vibes) \<noteq> VibeBody w) \<and>
         fst (handleGetVibe (Some vibeId) now vibes) \<noteq> 200 \<and>
         (vibeId \<noteq> [] \<longrightarrow> handleGetVibe (Some vibeId) now vibes =
            (404, Message (''Vibe with ID '' @ vibeId @ '' not found or expired.'')))"
  using assms by (simp add: handleGetVibe_def)

theorem handleGetVibe_expired_witness:
  "getVibe ''a'' [(''a'', exVibe ''a'' 0 5 0)] = Some (exVibe ''a'' 0 5 0) \<and>
   expiresAt (exVibe ''a'' 0 5 0) \<le> VIBE_LIFESPAN_MS \<and> ''a'' \<noteq> [] \<and>
   handleGetVibe (Some ''a'') VIBE_LIFESPAN_MS [(''a'', exVibe ''a'' 0 5 0)] =
     (404, Message ''Vibe with ID a not found or expired.'')"
proof -
  have h1: "getVibe ''a'' [(''a'', exVibe ''a'' 0 5 0)] = Some (exVibe ''a'' 0 5 0)"
    by (simp add: getVibe_def)
  have h2: "expiresAt (exVibe ''a'' 0 5 0) \<le> VIBE_LIFESPAN_MS"
    by (simp add: exVibe_def)
  from handleGetVibe_expired [OF h1 h2] h1 h2 show ?thesis by simp
qed

section \<open>Claims on weaving\<close>

text \<open>
  Claim C2, at a parent id that resolves only to an expired Vibe: \<open>weaveVibes\<close> resolves
  the ids with \<open>getVibesByIds\<close>, which does not read \<open>expiresAt\<close>, so the weave succeeds
  and a new Vibe of generation 1 is saved.
\<close>

theorem weave_expired_parent:
  "expiresAt (exVibe ''a'' 0 0 0) \<le> VIBE_LIFESPAN_MS + 1 \<and>
   weaveVibes [''a''] ''w'' (VIBE_LIFESPAN_MS + 1) [0, 0, 1/2, 1/2, 1/2, 0, 1/4, 0]
     [(''a'', exVibe ''a'' 0 0 0)]
   = Some (Some (exWoven (VIBE_LIFESPAN_MS + 1)),
           [(''a'', exVibe ''a'' 0 0 0), (''w'', exWoven (VIBE_LIFESPAN_MS + 1))], [])"
  using weave_example [of "VIBE_LIFESPAN_MS + 1"] by (simp add: exVibe_def)

text \<open>The part of C2 that the code does keep: an id absent from the store makes the
  weave fail before anything is drawn or saved.\<close>

lemma weave_absent_parent:
  assumes "i \<in> set ids" and "getVibe i vibes = None"
  shows "weaveVibes ids uuid now rs vibes = Some (None, vibes, rs)"
  using assms by (rule weaveVibes_unresolved)




text \<open>
  Claim C9. For every successful weave on a store whose entries are filed under their own
  ids, the new Vibe's \<open>parentVibeIds\<close> is the list of ids the caller gave, in the same
  order, its \<open>resonanceScore\<close> is 0 and its \<open>expiresAt\<close> is its \<open>createdAt\<close> plus 48 hours.
\<close>

theorem weave_output:
  assumes "wf_store vibes"
    and "weaveVibes ids uuid now rs vibes = Some (Some w, vibes', rs')"
  shows "parentVibeIds (internal w) = ids \<and> resonanceScore (internal w) = 0 \<and>
         expiresAt w = createdAt w + 48 * 60 * 60 * 1000"
proof -
  note s = weaveVibes_success [OF assms(2)]
  from assms(1) s(3) have "map vid (getVibesByIds ids vibes) = ids"
    by (rule getVibesByIds_ids)
  with s(5,6,7) show ?thesis by (simp add: VIBE_LIFESPAN_MS_def)
qed

theorem weave_output_witness:
  "wf_store [(''a'', exVibe ''a'' 0 0 0), (''w'', exWoven 5)] \<and>
   weaveVibes [''w'', ''a''] ''x'' 9 [0, 0, 1/2, 1/2, 1/2, 0, 1/4, 0]
       [(''a'', exVibe ''a'' 0 0 0), (''w'', exWoven 5)]
     = Some (Some exWoven2,
             [(''a'', exVibe ''a'' 0 0 0), (''w'', exWoven 5), (''x'', exWoven2)], []) \<and>
   parentVibeIds (internal exWoven2) = [''w'', ''a''] \<and>
   resonanceScore (internal exWoven2) = 0 \<and>
   expiresAt exWoven2 = 172800009 \<and>
   wf_store [(''a'', exVibe ''a'' 0 0 0), (''w'', exWoven 5), (''x'', exWoven2)] \<and>
   weaveVibes [''w'', ''x'', ''a''] ''y'' 12 [0, 0, 1/2, 1/2, 1/2, 0, 1/4, 0]
       [(''a'', exVibe ''a'' 0 0 0), (''w'', exWoven 5), (''x'', exWoven2)]
     = Some (Some exWoven3,
             [(''a'', exVibe ''a'' 0 0 0), (''w'', exWoven 5), (''x'', exWoven2),
              (''y'', exWoven3)], []) \<and>
   parentVibeIds (internal exWoven3) = [''w'', ''x'', ''a''] \<and>
   resonanceScore (internal exWoven3) = 0 \<and>
   expiresAt exWoven3 = 172800012"
proof -
  have h1: "wf_store [(''a'', exVibe ''a'' 0 0 0), (''w'', exWoven 5)]"
    by (simp add: wf_store_def exVibe_def exWoven_def)
  have c2: "createdAt exWoven2 = 9" by (simp add: exWoven2_def)
  note t2 = weave_output [OF h1 weave_two_parents_example, unfolded c2]
  have h3: "wf_store [(''a'', exVibe ''a'' 0 0 0), (''w'', exWoven 5), (''x'', exWoven2)]"
    by (simp add: wf_store_def exVibe_def exWoven_def exWoven2_def)
  have c3: "createdAt exWoven3 = 12" by (simp add: exWoven3_def)
  note t3 = weave_output [OF h3 weave_three_parents_example, unfolded c3]
  from t2 t3 h1 h3 weave_two_parents_example weave_three_parents_example
  show ?thesis by simp
qed

text \<open>
  Claim C6. A Vibe returned by create has generation 0 and no parent ids. A Vibe returned
  by a successful weave on a reachable store has between 1 and 3 parent ids, all of which
  resolve in that store, and its generation is 1 plus the largest generation among the
  Vibes they resolve to. In every reachable store, every Vibe has an empty
  \<open>parentVibeIds\<close> exactly when its generation is 0.
\<close>

theorem generation_invariant:
  "(createNewVibe visualParams audioParams hapticParams textParams uuid0 now0 vibes0
      = (created, vibes0') \<longrightarrow>
      generation (internal created) = 0 \<and> parentVibeIds (internal created) = []) \<and>
   (reachable vibes \<and> weaveVibes ids uuid now rs vibes = Some (Some w, vibes', rs') \<longrightarrow>
      1 \<le> length (parentVibeIds (internal w)) \<and> length (parentVibeIds (internal w)) \<le> 3 \<and>
      length (getVibesByIds (parentVibeIds (internal w)) vibes)
        = length (parentVibeIds (internal w)) \<and>
      generation (internal w) =
        1 + Max (set (map (\<lambda>p. generation (internal p))
                       (getVibesByIds (parentVibeIds (internal w)) vibes)))) \<and>
   (reachable store \<longrightarrow>
      (\<forall>v \<in> set (map snd store).
         parentVibeIds (internal v) = [] \<longleftrightarrow> generation (internal v) = 0))"
proof (intro conjI impI)
  assume "createNewVibe visualParams audioParams hapticParams textParams uuid0 now0 vibes0
            = (created, vibes0')"
  then show "generation (internal created) = 0" and "parentVibeIds (internal created) = []"
    by (auto simp: createNewVibe_def Let_def)
next
  assume a: "reachable vibes \<and> weaveVibes ids uuid now rs vibes = Some (Some w, vibes', rs')"
  then have wf: "wf_store vibes" by (simp add: reachable_wf_store)
  from a have weave: "weaveVibes ids uuid now rs vibes = Some (Some w, vibes', rs')" by simp
  note s = weaveVibes_success [OF weave]
  from wf s(3) have ids: "map vid (getVibesByIds ids vibes) = ids"
    by (rule getVibesByIds_ids)
  with s(7) have p: "parentVibeIds (internal w) = ids" by simp
  from s(1) show "1 \<le> length (parentVibeIds (internal w))" unfolding p .
  from s(2) show "length (parentVibeIds (internal w)) \<le> 3" unfolding p .
  from s(3) show "length (getVibesByIds (parentVibeIds (internal w)) vibes)
        = length (parentVibeIds (internal w))" unfolding p .
  from s(7) show "generation (internal w) =
        1 + Max (set (map (\<lambda>p. generation (internal p))
                       (getVibesByIds (parentVibeIds (internal w)) vibes)))"
    unfolding p by simp
next
  assume "reachable store"
  then have "store_inv store" by (rule reachable_store_inv)
  then show "\<forall>v \<in> set (map snd store).
         parentVibeIds (internal v) = [] \<longleftrightarrow> generation (internal v) = 0"
    by (auto simp: store_inv_def list_all_iff vibe_inv_def)
qed

theorem generation_invariant_witness:
  "createNewVibe exVisual exAudio None None ''a'' 0 []
     = (exVibe ''a'' 0 0 0, [(''a'', exVibe ''a'' 0 0 0)]) \<and>
   generation (internal (exVibe ''a'' 0 0 0)) = 0 \<and>
   reachable [(''a'', exVibe ''a'' 0 0 0)] \<and>
   weaveVibes [''a''] ''w'' 5 [0, 0, 1/2, 1/2, 1/2, 0, 1/4, 0] [(''a'', exVibe ''a'' 0 0 0)]
     = Some (Some (exWoven 5), [(''a'', exVibe ''a'' 0 0 0), (''w'', exWoven 5)], []) \<and>
   generation (internal (exWoven 5)) = 1 \<and>
   reachable [(''a'', exVibe ''a'' 0 0 0), (''w'', exWoven 5)] \<and>
   weaveVibes [''w'', ''a''] ''x'' 9 [0, 0, 1/2, 1/2, 1/2, 0, 1/4, 0]
       [(''a'', exVibe ''a'' 0 0 0), (''w'', exWoven 5)]
     = Some (Some exWoven2,
             [(''a'', exVibe ''a'' 0 0 0), (''w'', exWoven 5), (''x'', exWoven2)], []) \<and>
   getVibesByIds (parentVibeIds (internal exWoven2))
       [(''a'', exVibe ''a'' 0 0 0), (''w'', exWoven 5)]
     = [exWoven 5, exVibe ''a'' 0 0 0] \<and>
   generation (internal exWoven2) = 2 \<and>
   reachable [(''a'', exVibe ''a'' 0 0 0), (''w'', exWoven 5), (''x'', exWoven2)] \<and>
   weaveVibes [''w'', ''x'', ''a''] ''y'' 12 [0, 0, 1/2, 1/2, 1/2, 0, 1/4, 0]
       [(''a'', exVibe ''a'' 0 0 0), (''w'', exWoven 5), (''x'', exWoven2)]
     = Some (Some exWoven3,
             [(''a'', exVibe ''a'' 0 0 0), (''w'', exWoven 5), (''x'', exWoven2),
              (''y'', exWoven3)], []) \<and>
   getVibesByIds (parentVibeIds (internal exWoven3))
       [(''a'', exVibe ''a'' 0 0 0), (''w'', exWoven 5), (''x'', exWoven2)]
     = [exWoven 5, exWoven2, exVibe ''a'' 0 0 0] \<and>
   generation (internal exWoven3) = 3 \<and>
   length (parentVibeIds (internal exWoven3)) = 3 \<and>
   reachable [(''a'', exVibe ''a'' 0 0 0), (''w'', exWoven 5), (''x'', exWoven2),
              (''y'', exWoven3)] \<and>
   (parentVibeIds (internal (exVibe ''a'' 0 0 0)) = []
      \<longleftrightarrow> generation (internal (exVibe ''a'' 0 0 0)) = 0) \<and>
   (parentVibeIds (internal exWoven3) = [] \<longleftrightarrow> generation (internal exWoven3) = 0)"
proof -
  let ?s1 = "[(''a'', exVibe ''a'' 0 0 0)]"
  let ?s2 = "[(''a'', exVibe ''a'' 0 0 0), (''w'', exWoven 5)]"
  let ?s3 = "[(''a'', exVibe ''a'' 0 0 0), (''w'', exWoven 5), (''x'', exWoven2)]"
  let ?s4 = "[(''a'', exVibe ''a'' 0 0 0), (''w'', exWoven 5), (''x'', exWoven2),
              (''y'', exWoven3)]"
  have c: "createNewVibe exVisual exAudio None None ''a'' 0 [] = (exVibe ''a'' 0 0 0, ?s1)"
    by (simp add: createNewVibe_def exVibe_def saveVibe_def Let_def)
  have r1: "reachable ?s1"
    using reachable.empty c by (rule reachable.create)
  have w1: "weaveVibes [''a''] ''w'' 5 [0, 0, 1/2, 1/2, 1/2, 0, 1/4, 0] ?s1
           = Some (Some (exWoven 5), ?s2, [])"
    by (rule weave_example)
  have r2: "reachable ?s2" using r1 w1 by (rule reachable.weave)
  note w2 = weave_two_parents_example
  have r3: "reachable ?s3" using r2 w2 by (rule reachable.weave)
  note w3 = weave_three_parents_example
  have r4: "reachable ?s4" using r3 w3 by (rule reachable.weave)
  have g0: "generation (internal (exVibe ''a'' 0 0 0)) = 0"
    using generation_invariant
      [where visualParams = exVisual and audioParams = exAudio and hapticParams = None
         and textParams = None and ?uuid0.0 = "''a''" and ?now0.0 = 0 and ?vibes0.0 = "[]"
         and created = "exVibe ''a'' 0 0 0" and ?vibes0' = ?s1] c
    by blast
  have p1: "getVibesByIds (parentVibeIds (internal (exWoven 5))) ?s1 = [exVibe ''a'' 0 0 0]"
    by (simp add: exWoven_def getVibesByIds_def List.map_filter_def)
  have "generation (internal (exWoven 5)) =
        1 + Max (set (map (\<lambda>p. generation (internal p))
                       (getVibesByIds (parentVibeIds (internal (exWoven 5))) ?s1)))"
    using generation_invariant
      [where vibes = ?s1 and ids = "[''a'']" and uuid = "''w''"
         and now = 5 and rs = "[0, 0, 1/2, 1/2, 1/2, 0, 1/4, 0]" and w = "exWoven 5"
         and vibes' = ?s2 and rs' = "[]"] r1 w1
    by blast
  then have g1: "generation (internal (exWoven 5)) = 1"
    unfolding p1 using g0 by simp
  have p2: "getVibesByIds (parentVibeIds (internal exWoven2)) ?s2
            = [exWoven 5, exVibe ''a'' 0 0 0]"
    by (simp add: exWoven2_def getVibesByIds_def List.map_filter_def)
  have "generation (internal exWoven2) =
        1 + Max (set (map (\<lambda>p. generation (internal p))
                       (getVibesByIds (parentVibeIds (internal exWoven2)) ?s2)))"
    using generation_invariant
      [where vibes = ?s2 and ids = "[''w'', ''a'']" and uuid = "''x''"
         and now = 9 and rs = "[0, 0, 1/2, 1/2, 1/2, 0, 1/4, 0]" and w = exWoven2
         and vibes' = ?s3 and rs' = "[]"] r2 w2
    by blast
  then have g2: "generation (internal exWoven2) = 2"
    unfolding p2 using g0 g1 by simp
  have p3: "getVibesByIds (parentVibeIds (internal exWoven3)) ?s3
            = [exWoven 5, exWoven2, exVibe ''a'' 0 0 0]"
    by (simp add: exWoven3_def getVibesByIds_def List.map_filter_def)
  have t3: "1 \<le> length (parentVibeIds (internal exWoven3)) \<and>
        length (parentVibeIds (internal exWoven3)) \<le> 3 \<and>
        length (getVibesByIds (parentVibeIds (internal exWoven3)) ?s3)
          = length (parentVibeIds (internal exWoven3)) \<and>
        generation (internal exWoven3) =
        1 + Max (set (map (\<lambda>p. generation (internal p))
                       (getVibesByIds (parentVibeIds (internal exWoven3)) ?s3)))"
    using generation_invariant
      [where vibes = ?s3 and ids = "[''w'', ''x'', ''a'']" and uuid = "''y''"
         and now = 12 and rs = "[0, 0, 1/2, 1/2, 1/2, 0, 1/4, 0]" and w = exWoven3
         and vibes' = ?s4 and rs' = "[]"] r3 w3
    by blast
  then have g3: "generation (internal exWoven3) = 3"
    unfolding p3 using g0 g1 g2 by simp
  from t3 have l3: "length (parentVibeIds (internal exWoven3)) = 3"
    unfolding p3 by simp
  have inv: "\<forall>v \<in> set (map snd ?s4).
      parentVibeIds (internal v) = [] \<longleftrightarrow> generation (internal v) = 0"
    using generation_invariant [where store = ?s4] r4
    by blast
  from inv have i:
    "(parentVibeIds (internal (exVibe ''a'' 0 0 0)) = []
        \<longleftrightarrow> generation (internal (exVibe ''a'' 0 0 0)) = 0) \<and>
     (parentVibeIds (internal exWoven3) = [] \<longleftrightarrow> generation (internal exWoven3) = 0)"
    by simp
  from c g0 r1 w1 g1 r2 w2 p2 g2 r3 w3 p3 g3 l3 r4 i show ?thesis
    by (intro conjI) (rule c g0 r1 w1 g1 r2 w2 p2 g2 r3 w3 p3 g3 l3 r4 conjunct1 [OF i]
        conjunct2 [OF i])+
qed

section \<open>Claims on the streams\<close>

lemma vid_exVibe: "vid (exVibe i created score resonated) = i"
  by (simp add: exVibe_def)

lemma exStore_wf: "wf_store exStore"
  by (simp add: wf_store_def exStore_def exVibe_def)

lemma exStore_active:
  "getAllActiveVibes 0 exStore = [exVibe ''a'' 0 1 0, exVibe ''b'' 0 5 0, exVibe ''c'' 0 3 0]"
  by (simp add: getAllActiveVibes_def exStore_def exVibe_def VIBE_LIFESPAN_MS_def)

lemma exStore_sorted:
  "sortByResonance [exVibe ''a'' 0 1 0, exVibe ''b'' 0 5 0, exVibe ''c'' 0 3 0]
   = [exVibe ''b'' 0 5 0, exVibe ''c'' 0 3 0, exVibe ''a'' 0 1 0]"
  by (simp add: sortByResonance_def exVibe_def)

lemma exStore_collective:
  "getStreamVibes ''collective'' ''trends'' 2 0 shuffle exStore = [''b'', ''c'']"
  by (simp add: getStreamVibes_def exStore_active exStore_sorted slice0_def vid_exVibe)



text \<open>
  Claim C4. For a limit that is not negative, the collective stream returns exactly
  \<open>min limit (number of active Vibes)\<close> ids; they are the ids of active Vibes of the store
  (\<open>now < expiresAt\<close>), in descending order of \<open>resonanceScore\<close>, and no active Vibe left
  out has a higher score than one returned.
\<close>

theorem collective_stream:
  assumes "wf_store vibes" and "0 \<le> limit"
  shows "int (length (getStreamVibes ''collective'' associatedId limit now shuffle vibes))
           = min limit (int (length (getAllActiveVibes now vibes))) \<and>
         (\<exists>vs. getStreamVibes ''collective'' associatedId limit now shuffle vibes = map vid vs \<and>
            sorted_wrt (\<lambda>a b. resonanceScore (internal b) \<le> resonanceScore (internal a)) vs \<and>
            (\<forall>v \<in> set vs. getVibe (vid v) vibes = Some v \<and> now < expiresAt v) \<and>
            (\<forall>u \<in> set (getAllActiveVibes now vibes) - set vs. \<forall>v \<in> set vs.
               resonanceScore (internal u) \<le> resonanceScore (internal v)))"
proof -
  let ?active = "getAllActiveVibes now vibes"
  let ?sorted = "sortByResonance ?active"
  let ?vs = "take (nat limit) ?sorted"
  have res: "getStreamVibes ''collective'' associatedId limit now shuffle vibes = map vid ?vs"
    using assms(2) by (simp add: getStreamVibes_def slice0_nonneg)
  have len: "int (length (map vid ?vs)) = min limit (int (length ?active))"
    using assms(2) by (auto simp: length_sortByResonance min_def)
  note top = top_of_sorted [OF sorted_sortByResonance [of ?active], of "nat limit"]
  have sub: "set ?vs \<subseteq> set ?active"
    using set_take_subset [of "nat limit" ?sorted] by (simp add: set_sortByResonance)
  have mem: "\<forall>v \<in> set ?vs. getVibe (vid v) vibes = Some v \<and> now < expiresAt v"
    using sub active_member [OF assms(1)] by blast
  have dom: "\<forall>u \<in> set ?active - set ?vs. \<forall>v \<in> set ?vs.
               resonanceScore (internal u) \<le> resonanceScore (internal v)"
  proof
    fix u assume "u \<in> set ?active - set ?vs"
    then have "u \<in> set (take (nat limit) ?sorted @ drop (nat limit) ?sorted)"
      and "u \<notin> set ?vs" by (simp_all add: set_sortByResonance)
    then have "u \<in> set (drop (nat limit) ?sorted)"
      unfolding set_append by blast
    with top(2) show "\<forall>v \<in> set ?vs. resonanceScore (internal u) \<le> resonanceScore (internal v)"
      by blast
  qed
  from res len top(1) mem dom show ?thesis by (metis (no_types, lifting))
qed

theorem collective_stream_witness:
  "wf_store exStore \<and> (0::int) \<le> 2 \<and>
   getStreamVibes ''collective'' ''trends'' 2 0 rev exStore = [''b'', ''c''] \<and>
   int (length [''b'', ''c'']) = min 2 (int (length (getAllActiveVibes 0 exStore)))"
proof -
  have h2: "(0::int) \<le> 2" by simp
  from collective_stream [OF exStore_wf h2, of "''trends''" 0 rev]
  have "int (length (getStreamVibes ''collective'' ''trends'' 2 0 rev exStore))
           = min 2 (int (length (getAllActiveVibes 0 exStore)))"
    by (rule conjunct1)
  with exStore_wf show ?thesis by (simp add: exStore_collective)
qed

text \<open>
  The limit has to be a size: for a negative limit \<open>slice\<close> counts from the end, and the
  collective stream of three active Vibes with limit \<open>-1\<close> has two ids. The request layer
  admits limits from 1 to 100 only. A stream type other than the two known ones gives the
  empty stream.
\<close>

lemma collective_stream_negative_limit:
  "getStreamVibes ''collective'' ''trends'' (- 1) 0 shuffle exStore = [''b'', ''c'']"
  by (simp add: getStreamVibes_def exStore_active exStore_sorted slice0_def vid_exVibe)

lemma unknown_stream_type:
  "streamType \<noteq> ''personal'' \<Longrightarrow> streamType \<noteq> ''collective'' \<Longrightarrow>
   getStreamVibes streamType associatedId limit now shuffle vibes = []"
  by (simp add: getStreamVibes_def)












end
